theory Spec2Isabelle
  imports Main "HOL-Library.AList" "HOL-Library.Sublist" "HOL-Library.List_Lexorder" "HOL-Library.Char_ord"
begin

section \<open>Python values, dictionaries and exceptions\<close>

text \<open>
  The exceptions the modelled code raises or lets through. \<open>CisTypeError\<close> is declared in
  \<^verbatim>\<open>CisBaseType.py\<close> as a subclass of Python's \<open>TypeError\<close>; the other constructors are
  Python's built-in classes, each with its message. \<open>OtherException\<close> stands for anything an
  external collaborator (a constructor, a thread start, a parser) may raise.
\<close>

datatype error =
    PyTypeError string
  | ValueError string
  | CisTypeError string
  | NotImplementedError string
  | KeyError string
  | OtherException string

text \<open>\<open>isinstance(e, TypeError)\<close>: the class itself and its subclass \<open>CisTypeError\<close>.\<close>

fun is_type_error :: "error \<Rightarrow> bool" where
  "is_type_error (PyTypeError _) = True"
| "is_type_error (CisTypeError _) = True"
| "is_type_error _ = False"

text \<open>
  JSON-friendly values: what a header or a type definition maps its keys to. Strings are
  lists of 8-bit characters (code points below 256). A Python \<open>dict\<close> with string keys is an
  association list in insertion order, with one entry per key.
\<close>

datatype json =
    JNull
  | JBool bool
  | JInt int
  | JString string
  | JList "json list"
  | JDict "(string \<times> json) list"

type_synonym pydict = "(string \<times> json) list"

text \<open>Python's \<open>==\<close> on these values: \<open>True == 1\<close>, and dictionaries compare without order.\<close>

fun py_eq :: "json \<Rightarrow> json \<Rightarrow> bool" where
  "py_eq JNull JNull = True"
| "py_eq (JBool a) (JBool b) = (a = b)"
| "py_eq (JBool a) (JInt i) = (i = (if a then 1 else 0))"
| "py_eq (JInt i) (JBool a) = (i = (if a then 1 else 0))"
| "py_eq (JInt i) (JInt j) = (i = j)"
| "py_eq (JString s) (JString t) = (s = t)"
| "py_eq (JList xs) (JList ys) = list_all2 py_eq xs ys"
| "py_eq (JDict a) (JDict b) =
     (length a = length b \<and>
      list_all (\<lambda>(k, v). case map_of b k of None \<Rightarrow> False | Some w \<Rightarrow> py_eq v w) a)"
| "py_eq _ _ = False"

text \<open>\<open>d.get(k, None)\<close>, \<open>d[k] = v\<close> and \<open>d.update(**kw)\<close>.\<close>

definition dict_get :: "pydict \<Rightarrow> string \<Rightarrow> json" where
  "dict_get d k = (case map_of d k of None \<Rightarrow> JNull | Some v \<Rightarrow> v)"

definition dict_set :: "pydict \<Rightarrow> string \<Rightarrow> json \<Rightarrow> pydict" where
  "dict_set d k v = AList.update k v d"

fun dict_update :: "pydict \<Rightarrow> pydict \<Rightarrow> pydict" where
  "dict_update d [] = d"
| "dict_update d ((k, v) # kw) = dict_update (dict_set d k v) kw"

text \<open>What a caller may pass where bytes are expected.\<close>

datatype pyobj = PyBytes string | PyStr string | PyInt int | PyNone

section \<open>Byte strings: \<open>in\<close> and \<open>split(sep, 1)\<close>\<close>

text \<open>\<open>sep in msg\<close> on byte strings.\<close>

fun bytes_contains :: "string \<Rightarrow> string \<Rightarrow> bool" where
  "bytes_contains s [] = (s = [])"
| "bytes_contains s (c # cs) = (prefix s (c # cs) \<or> bytes_contains s cs)"

text \<open>
  \<open>msg.split(sep, 1)\<close>: the part before the first occurrence of the separator and the part
  after it; \<open>None\<close> when the separator does not occur (Python then returns the one-element
  list, and unpacking it into two names raises).
\<close>

fun split_first :: "string \<Rightarrow> string \<Rightarrow> (string \<times> string) option" where
  "split_first s [] = (if s = [] then Some ([], []) else None)"
| "split_first s (c # cs) =
     (if prefix s (c # cs) then Some ([], drop (length s) (c # cs))
      else (case split_first s cs of
              None \<Rightarrow> None
            | Some (a, b) \<Rightarrow> Some (c # a, b)))"

section \<open>\<open>json.dumps(metadata, sort_keys=True)\<close>\<close>

text \<open>
  The standard encoder with its defaults: \<open>ensure_ascii\<close>, item separator \<open>", "\<close>, key
  separator \<open>": "\<close>, keys sorted. A string is quoted; inside it the quote and the backslash
  are escaped with a backslash, backspace, form feed, newline, carriage return and tab become
  their two-character escapes, and any other character outside the printable ASCII range
  (space to tilde) becomes \<open>\u00XX\<close>.
\<close>

definition hex_digit :: "nat \<Rightarrow> char" where
  "hex_digit n = ''0123456789abcdef'' ! (n mod 16)"

definition escape_char :: "char \<Rightarrow> string" where
  "escape_char c =
     (if c = CHR 0x22 then [CHR 0x5C, CHR 0x22]
      else if c = CHR 0x5C then [CHR 0x5C, CHR 0x5C]
      else if c = CHR 0x08 then [CHR 0x5C, CHR ''b'']
      else if c = CHR 0x0C then [CHR 0x5C, CHR ''f'']
      else if c = CHR 0x0A then [CHR 0x5C, CHR ''n'']
      else if c = CHR 0x0D then [CHR 0x5C, CHR ''r'']
      else if c = CHR 0x09 then [CHR 0x5C, CHR ''t'']
      else if (of_char c :: nat) < 32 \<or> 126 < (of_char c :: nat)
        then [CHR 0x5C, CHR ''u'', CHR ''0'', CHR ''0'',
              hex_digit (of_char c div 16), hex_digit (of_char c mod 16)]
      else [c])"

definition encode_basestring_ascii :: "string \<Rightarrow> string" where
  "encode_basestring_ascii s = [CHR 0x22] @ concat (map escape_char s) @ [CHR 0x22]"

function str_nat :: "nat \<Rightarrow> string" where
  "str_nat n =
     (if n < 10 then [''0123456789'' ! n]
      else str_nat (n div 10) @ [''0123456789'' ! (n mod 10)])"
  by pat_completeness auto
termination
  by (relation "measure id") auto

declare str_nat.simps [simp del]

definition str_int :: "int \<Rightarrow> string" where
  "str_int i = (if i < 0 then CHR ''-'' # str_nat (nat (- i)) else str_nat (nat i))"

fun join :: "string \<Rightarrow> string list \<Rightarrow> string" where
  "join s [] = []"
| "join s [x] = x"
| "join s (x # y # ys) = x @ s @ join s (y # ys)"

fun json_dumps :: "json \<Rightarrow> string" where
  "json_dumps JNull = ''null''"
| "json_dumps (JBool b) = (if b then ''true'' else ''false'')"
| "json_dumps (JInt i) = str_int i"
| "json_dumps (JString s) = encode_basestring_ascii s"
| "json_dumps (JList xs) = ''['' @ join '', '' (map json_dumps xs) @ '']''"
| "json_dumps (JDict kvs) =
     ''{'' @ join '', ''
        (map (\<lambda>(k, t). encode_basestring_ascii k @ '': '' @ t)
          (sort_key fst (map (\<lambda>(k, v). (k, json_dumps v)) kvs))) @ ''}''"

section \<open>The typed message codec (\<^verbatim>\<open>CisBaseType\<close>)\<close>

text \<open>
  A type is the class \<open>CisBaseType\<close> or a subclass of it: its class attributes and the four
  methods \<^verbatim>\<open>encode_type\<close>, \<^verbatim>\<open>encode_data\<close>, \<^verbatim>\<open>decode_data\<close>, \<^verbatim>\<open>transform_type\<close> that the
  source marks "to be overridden by subclasses", with \<^verbatim>\<open>check_meta_compat\<close>, which a
  subclass may replace. \<open>'obj\<close> is the type of the application objects. The JSON schema of a
  property (an entry of \<^verbatim>\<open>properties\<close>) is kept as the predicate it validates.
\<close>

record 'obj cis_type =
  name :: string
  properties :: "(string \<times> (json \<Rightarrow> bool)) list"
  definition_properties :: "string list"
  metadata_properties :: "string list"
  empty_msg :: 'obj
  encode_type :: "'obj \<Rightarrow> error + pydict"
  encode_data :: "'obj \<Rightarrow> pydict \<Rightarrow> error + pyobj"
  decode_data :: "string \<Rightarrow> json \<Rightarrow> error + 'obj"
  transform_type :: "'obj \<Rightarrow> pydict option \<Rightarrow> error + 'obj"
  check_meta_compat :: "string \<Rightarrow> json \<Rightarrow> json \<Rightarrow> bool"

definition not_overridden :: error where
  "not_overridden = NotImplementedError ''Method must be overridden by the subclass.''"

text \<open>
  The base class as the source declares it; \<open>e\<close> is its \<^verbatim>\<open>_empty_msg\<close>, the empty
  dictionary.
\<close>

definition CisBaseType :: "'obj \<Rightarrow> 'obj cis_type" where
  "CisBaseType e =
     \<lparr> name = ''base'', properties = [], definition_properties = [],
       metadata_properties = [], empty_msg = e,
       encode_type = (\<lambda>obj. Inl not_overridden),
       encode_data = (\<lambda>obj typedef. Inl not_overridden),
       decode_data = (\<lambda>obj typedef. Inl not_overridden),
       transform_type = (\<lambda>obj typedef. Inl not_overridden),
       check_meta_compat = (\<lambda>k v1 v2. py_eq v1 v2) \<rparr>"

definition sep :: string where
  "sep = '':CIS_TAG:''"

text \<open>
  \<^verbatim>\<open>definition_schema\<close> and \<^verbatim>\<open>metadata_schema\<close>: an object with the listed keys required
  (\<open>typename\<close> added last) and the class's properties, where \<open>typename\<close> must be a string of
  the enumeration \<open>[cls.name]\<close>.
\<close>

definition definition_required :: "'obj cis_type \<Rightarrow> string list" where
  "definition_required T = definition_properties T @ [''typename'']"

definition metadata_required :: "'obj cis_type \<Rightarrow> string list" where
  "metadata_required T = metadata_properties T @ [''typename'']"

definition schema_properties :: "'obj cis_type \<Rightarrow> (string \<times> (json \<Rightarrow> bool)) list" where
  "schema_properties T =
     AList.update ''typename'' (\<lambda>v. v = JString (name T)) (properties T)"

text \<open>
  \<open>jsonschema.validate(obj, schema)\<close> for such a schema, \<open>True\<close> when it returns and \<open>False\<close>
  when it raises \<open>ValidationError\<close>: the instance is an object, has every required key, and
  each of its keys that the schema describes holds a value the property's schema accepts.
\<close>

definition jsonschema_validate ::
  "json \<Rightarrow> string list \<Rightarrow> (string \<times> (json \<Rightarrow> bool)) list \<Rightarrow> bool" where
  "jsonschema_validate obj required props =
     (case obj of
        JDict d \<Rightarrow>
          list_all (\<lambda>k. k \<in> set (map fst d)) required \<and>
          list_all (\<lambda>(k, v). case map_of props k of None \<Rightarrow> True | Some p \<Rightarrow> p v) d
      | _ \<Rightarrow> False)"

definition validate_metadata :: "'obj cis_type \<Rightarrow> json \<Rightarrow> bool" where
  "validate_metadata T obj = jsonschema_validate obj (metadata_required T) (schema_properties T)"

definition validate_definition :: "'obj cis_type \<Rightarrow> json \<Rightarrow> bool" where
  "validate_definition T obj =
     jsonschema_validate obj (definition_required T) (schema_properties T)"

definition check_encoded :: "'obj cis_type \<Rightarrow> json \<Rightarrow> pydict option \<Rightarrow> bool" where
  "check_encoded T metadata typedef =
     (if \<not> validate_metadata T metadata then False
      else (case typedef of
              None \<Rightarrow> True
            | Some td \<Rightarrow>
                if \<not> validate_definition T (JDict td) then False
                else list_all
                  (\<lambda>(k, v). check_meta_compat T k
                     (case metadata of JDict m \<Rightarrow> dict_get m k | _ \<Rightarrow> JNull) v) td))"

text \<open>
  \<^verbatim>\<open>check_decoded\<close> catches \<open>CisTypeError\<close> only; any other exception of \<^verbatim>\<open>encode_type\<close>
  goes to the caller.
\<close>

definition check_decoded :: "'obj cis_type \<Rightarrow> 'obj \<Rightarrow> pydict option \<Rightarrow> error + bool" where
  "check_decoded T obj typedef =
     (case encode_type T obj of
        Inl (CisTypeError m) \<Rightarrow> Inr False
      | Inl e \<Rightarrow> Inl e
      | Inr datadef \<Rightarrow>
          Inr (check_encoded T (JDict (dict_set datadef ''typename'' (JString (name T)))) typedef))"

definition encode ::
  "'obj cis_type \<Rightarrow> 'obj \<Rightarrow> pydict option \<Rightarrow> error + (pydict \<times> string)" where
  "encode T obj typedef =
     (case check_decoded T obj typedef of
        Inl e \<Rightarrow> Inl e
      | Inr False \<Rightarrow> Inl (ValueError ''Object is not correct type for encoding.'')
      | Inr True \<Rightarrow>
          (case transform_type T obj typedef of
             Inl e \<Rightarrow> Inl e
           | Inr obj_t \<Rightarrow>
               (case encode_type T obj_t of
                  Inl e \<Rightarrow> Inl e
                | Inr md \<Rightarrow>
                    (let metadata = dict_set md ''typename'' (JString (name T)) in
                     case encode_data T obj_t metadata of
                       Inl e \<Rightarrow> Inl e
                     | Inr data \<Rightarrow>
                         if \<not> check_encoded T (JDict metadata) typedef
                         then Inl (ValueError ''Object was not encoded correctly.'')
                         else (case data of
                                 PyBytes b \<Rightarrow> Inr (metadata, b)
                               | _ \<Rightarrow> Inl (PyTypeError ''Encoded data must be of bytes type''))))))"

definition decode ::
  "'obj cis_type \<Rightarrow> json \<Rightarrow> string \<Rightarrow> pydict option \<Rightarrow> error + 'obj" where
  "decode T metadata data typedef =
     (if \<not> check_encoded T metadata typedef
      then Inl (ValueError ''Metadata does not match type definition.'')
      else (case decode_data T data metadata of
              Inl e \<Rightarrow> Inl e
            | Inr out \<Rightarrow>
                (case check_decoded T out typedef of
                   Inl e \<Rightarrow> Inl e
                 | Inr False \<Rightarrow> Inl (ValueError ''Object was not decoded correctly.'')
                 | Inr True \<Rightarrow> transform_type T out typedef)))"

text \<open>
  An instance is its class \<open>T\<close> with its \<^verbatim>\<open>_typedef\<close>, the dictionary \<open>td\<close>. \<^verbatim>\<open>serialize\<close>
  takes the header fields as keyword arguments \<open>kwargs\<close>.
\<close>

definition serialize :: "'obj cis_type \<Rightarrow> pydict \<Rightarrow> 'obj \<Rightarrow> pydict \<Rightarrow> error + string" where
  "serialize T td obj kwargs =
     (case encode T obj (Some td) of
        Inl e \<Rightarrow> Inl e
      | Inr (metadata, data) \<Rightarrow>
          Inr (json_dumps (JDict (dict_update metadata kwargs)) @ sep @ data))"

text \<open>
  \<^verbatim>\<open>deserialize\<close>; \<open>json_loads\<close> is the standard library's parser applied to the decoded
  header text, a parameter here.
\<close>

definition deserialize ::
  "'obj cis_type \<Rightarrow> pydict \<Rightarrow> (string \<Rightarrow> error + json) \<Rightarrow> pyobj \<Rightarrow> error + ('obj \<times> json)" where
  "deserialize T td json_loads msg =
     (case msg of
        PyBytes b \<Rightarrow>
          if length b = 0 then Inr (empty_msg T, JDict [])
          else if \<not> bytes_contains sep b
            then Inl (ValueError ''Separator not in message.'')
            else (case split_first sep b of
                    None \<Rightarrow> Inl (ValueError ''not enough values to unpack'')
                  | Some (h, data) \<Rightarrow>
                      (case json_loads h of
                         Inl e \<Rightarrow> Inl e
                       | Inr metadata \<Rightarrow>
                           (case decode T metadata data (Some td) of
                              Inl e \<Rightarrow> Inl e
                            | Inr obj \<Rightarrow> Inr (obj, metadata))))
      | _ \<Rightarrow> Inl (PyTypeError ''Message to be deserialized is not bytes type.''))"

section \<open>Concrete subtypes used to run the generic code\<close>

text \<open>
  Objects are Python values; only byte strings are of the type, and they are stored as they
  are.
\<close>

definition raw_bytes_type :: "pyobj cis_type" where
  "raw_bytes_type =
     \<lparr> name = ''bytes'', properties = [], definition_properties = [],
       metadata_properties = [], empty_msg = PyNone,
       encode_type = (\<lambda>obj. case obj of PyBytes b \<Rightarrow> Inr []
                                 | _ \<Rightarrow> Inl (CisTypeError ''not bytes'')),
       encode_data = (\<lambda>obj typedef. Inr obj),
       decode_data = (\<lambda>data typedef. Inr (PyBytes data)),
       transform_type = (\<lambda>obj typedef. Inr obj),
       check_meta_compat = (\<lambda>k v1 v2. py_eq v1 v2) \<rparr>"

text \<open>
  Objects are integers, cast to one unsigned byte by \<^verbatim>\<open>transform_type\<close> before they are
  encoded.
\<close>

definition uint8_type :: "int cis_type" where
  "uint8_type =
     \<lparr> name = ''uint8'', properties = [], definition_properties = [],
       metadata_properties = [], empty_msg = 0,
       encode_type = (\<lambda>obj. Inr []),
       encode_data = (\<lambda>obj typedef. Inr (PyBytes [char_of obj])),
       decode_data = (\<lambda>data typedef. case data of [c] \<Rightarrow> Inr (of_char c)
                                        | _ \<Rightarrow> Inl (ValueError ''one byte expected'')),
       transform_type = (\<lambda>obj typedef. Inr (obj mod 256)),
       check_meta_compat = (\<lambda>k v1 v2. py_eq v1 v2) \<rparr>"

section \<open>The RPC request driver (\<^verbatim>\<open>RPCRequestDriver\<close>)\<close>

text \<open>
  A message has a flag, a payload and a header; the header fields the driver reads
  (\<open>response_address\<close>, \<open>request_id\<close>, \<open>commtype\<close>, \<open>model\<close>) are strings.
\<close>

datatype flag = FLAG_SUCCESS | FLAG_EOF | FLAG_EMPTY | FLAG_FAILURE

record comm_message =
  flag :: flag
  args :: string
  header :: "(string \<times> string) list"

text \<open>The keyword arguments of \<^verbatim>\<open>send_message\<close>; \<open>header_kwargs\<close> may be absent.\<close>

record send_kwargs =
  header_kwargs :: "pydict option"
  skip_processing :: bool

text \<open>
  A response driver, as far as the request driver reads it: its \<open>response_address\<close>, whether
  its thread is alive, and what its two comms report.
\<close>

record response_driver =
  response_address :: string
  is_alive :: bool
  icomm_is_confirmed_recv :: bool
  ocomm_is_confirmed_send :: bool

text \<open>
  What the driver does to its collaborators, in order: a response driver constructed for an
  address and a request id, a response driver started, a message handed to the base
  pump's \<^verbatim>\<open>send_message\<close>, \<^verbatim>\<open>send_eof\<close> called, the base pump's \<^verbatim>\<open>on_eof\<close> called,
  a response driver cleaned up.
\<close>

datatype event =
    Constructed string string response_driver
  | Started response_driver
  | BaseSend comm_message send_kwargs
  | SendEof
  | BaseOnEof comm_message
  | Cleanup response_driver

datatype direction = Input | Output

record request_driver =
  driver_name :: string
  response_kwargs :: pydict
  response_drivers :: "response_driver list"
  block_response :: bool
  ocomm_is_closed :: bool
  is_comm_open :: bool
  models_input :: "string list"
  models_output :: "string list"
  was_break :: bool
  icomm_empty_obj_recv :: string
  trace :: "event list"

text \<open>
  The collaborators whose code is outside the driver: the constructor of
  \<^verbatim>\<open>RPCResponseDriver\<close> (arguments: address, request id, \<open>request_name\<close>, \<open>inputs\<close>,
  \<open>outputs\<close>) and its \<^verbatim>\<open>start\<close>, either of which may raise; what the base pump's
  \<^verbatim>\<open>send_message\<close> and \<^verbatim>\<open>on_eof\<close> return; the base pump's \<^verbatim>\<open>run_loop\<close>.
\<close>

record collaborators =
  new_response_driver ::
    "string \<Rightarrow> string \<Rightarrow> string \<Rightarrow> pydict list \<Rightarrow> pydict list \<Rightarrow> error + response_driver"
  start_response_driver :: "response_driver \<Rightarrow> error + response_driver"
  base_send_result :: "request_driver \<Rightarrow> comm_message \<Rightarrow> send_kwargs \<Rightarrow> bool"
  base_on_eof_result :: "request_driver \<Rightarrow> comm_message \<Rightarrow> comm_message"
  base_run_loop :: "request_driver \<Rightarrow> request_driver"

definition YGG_CLIENT_EOF :: string where
  "YGG_CLIENT_EOF = ''YGG_END_CLIENT''"

text \<open>\<open>h[k]\<close>, which raises \<open>KeyError\<close> on a missing key, and \<open>d.setdefault(k, v)\<close>.\<close>

definition header_item :: "(string \<times> string) list \<Rightarrow> string \<Rightarrow> error + string" where
  "header_item h k = (case map_of h k of None \<Rightarrow> Inl (KeyError k) | Some v \<Rightarrow> Inr v)"

definition setdefault :: "pydict \<Rightarrow> string \<Rightarrow> json \<Rightarrow> pydict" where
  "setdefault d k v = (case map_of d k of None \<Rightarrow> d @ [(k, v)] | Some w \<Rightarrow> d)"

text \<open>\<open>msg.header.get('model', '')\<close>.\<close>

definition header_model :: "comm_message \<Rightarrow> string" where
  "header_model msg = (case map_of (header msg) ''model'' of None \<Rightarrow> [] | Some m \<Rightarrow> m)"

text \<open>
  The call \<^verbatim>\<open>super().send_message(msg, **kwargs)\<close>: the message and its keyword arguments
  are handed to the base pump, which answers with a truth value.
\<close>

definition base_send_message ::
  "collaborators \<Rightarrow> comm_message \<Rightarrow> send_kwargs \<Rightarrow> request_driver \<Rightarrow> (error + bool) \<times> request_driver" where
  "base_send_message env msg kwargs self =
     (Inr (base_send_result env self msg kwargs),
      self\<lparr>trace := trace self @ [BaseSend msg kwargs]\<rparr>)"

text \<open>The header fields \<^verbatim>\<open>send_message\<close> attaches, each only where the caller gave none.\<close>

definition tag_request :: "send_kwargs \<Rightarrow> response_driver \<Rightarrow> string \<Rightarrow> comm_message \<Rightarrow> send_kwargs" where
  "tag_request kwargs d request_id msg =
     kwargs\<lparr>header_kwargs :=
       Some (setdefault
              (setdefault
                (setdefault (case header_kwargs kwargs of None \<Rightarrow> [] | Some hk \<Rightarrow> hk)
                   ''response_address'' (JString (response_address d)))
                ''request_id'' (JString request_id))
              ''model'' (JString (header_model msg)))\<rparr>"

definition send_message ::
  "collaborators \<Rightarrow> comm_message \<Rightarrow> send_kwargs \<Rightarrow> request_driver \<Rightarrow> (error + bool) \<times> request_driver" where
  "send_message env msg kwargs self =
     (if ocomm_is_closed self then (Inr False, self)
      else if flag msg \<noteq> FLAG_EOF then
        (if \<not> is_comm_open self \<or> block_response self then (Inr False, self)
         else
          (case header_item (header msg) ''response_address'' of
             Inl e \<Rightarrow> (Inl e, self)
           | Inr address \<Rightarrow>
          (case header_item (header msg) ''request_id'' of
             Inl e \<Rightarrow> (Inl e, self)
           | Inr request_id \<Rightarrow>
          (case header_item (header msg) ''commtype'' of
             Inl e \<Rightarrow> (Inl e, self)
           | Inr commtype \<Rightarrow>
          (case new_response_driver env address request_id (driver_name self)
                  [response_kwargs self] [[(''commtype'', JString commtype)]] of
             Inl e \<Rightarrow> (Inr False, self)
           | Inr d \<Rightarrow>
              (let self1 = self\<lparr>response_drivers := response_drivers self @ [d],
                                trace := trace self @ [Constructed address request_id d]\<rparr>
               in case start_response_driver env d of
                    Inl e \<Rightarrow> (Inr False, self1)
                  | Inr d' \<Rightarrow>
                      base_send_message env msg (tag_request kwargs d' request_id msg)
                        (self1\<lparr>response_drivers := response_drivers self @ [d'],
                               trace := trace self1 @ [Started d']\<rparr>)))))))
      else base_send_message env msg kwargs self)"

text \<open>\<^verbatim>\<open>clients\<close> (a copy of the input registry) and \<^verbatim>\<open>nclients\<close>.\<close>

definition clients :: "request_driver \<Rightarrow> string list" where
  "clients self = models_input self"

definition nclients :: "request_driver \<Rightarrow> nat" where
  "nclients self = length (clients self)"

definition models :: "request_driver \<Rightarrow> direction \<Rightarrow> string list" where
  "models self direction = (case direction of Input \<Rightarrow> models_input self | Output \<Rightarrow> models_output self)"

text \<open>
  Modelled from the spec: \<^verbatim>\<open>ConnectionDriver.remove_model\<close>, the base pump's method, whose
  file is not among the sources. The spec: a driver owns one registry per direction, sets of
  model names; \<open>removeModel(direction, modelName)\<close> is idempotent and returns whether that
  direction's registry is now empty; removing an unknown model is a no-op.
\<close>

definition base_remove_model :: "direction \<Rightarrow> string \<Rightarrow> request_driver \<Rightarrow> bool \<times> request_driver" where
  "base_remove_model direction nm self =
     (let self1 = (case direction of
                     Input \<Rightarrow> self\<lparr>models_input := removeAll nm (models_input self)\<rparr>
                   | Output \<Rightarrow> self\<lparr>models_output := removeAll nm (models_output self)\<rparr>)
      in (models self1 direction = [], self1))"

text \<open>
  The call \<^verbatim>\<open>self.send_eof()\<close>. The method is the base pump's
  (\<^verbatim>\<open>ConnectionDriver.send_eof\<close>, whose file is not among the sources); each call of it is
  recorded in the trace as \<open>SendEof\<close>.
\<close>

definition send_eof :: "request_driver \<Rightarrow> request_driver" where
  "send_eof self = self\<lparr>trace := trace self @ [SendEof]\<rparr>"



definition client_eof_message :: comm_message where
  "client_eof_message = \<lparr>flag = FLAG_SUCCESS, args = YGG_CLIENT_EOF, header = []\<rparr>"

definition client_eof_kwargs :: "string \<Rightarrow> send_kwargs" where
  "client_eof_kwargs nm =
     \<lparr>header_kwargs = Some [(''raw'', JBool True), (''model'', JString nm)],
      skip_processing = True\<rparr>"

definition remove_model ::
  "collaborators \<Rightarrow> direction \<Rightarrow> string \<Rightarrow> request_driver \<Rightarrow> bool \<times> request_driver" where
  "remove_model env direction nm self =
     (let self1 = (if direction = Input \<and> nm \<in> set (clients self)
                   then snd (base_send_message env client_eof_message (client_eof_kwargs nm) self)
                   else self);
          (out, self2) = base_remove_model direction nm self1
      in (out, if out then send_eof self2 else self2))"

definition on_eof ::
  "collaborators \<Rightarrow> comm_message \<Rightarrow> request_driver \<Rightarrow> comm_message \<times> request_driver" where
  "on_eof env msg self =
     (let self1 = snd (remove_model env Input (header_model msg) self)
      in if nclients self1 = 0
         then (base_on_eof_result env self1 msg, self1\<lparr>trace := trace self1 @ [BaseOnEof msg]\<rparr>)
         else (\<lparr>flag = FLAG_EMPTY, args = icomm_empty_obj_recv self1, header = []\<rparr>, self1))"

text \<open>
  \<^verbatim>\<open>prune_response_drivers\<close>: the indices of the drivers to remove are collected in a scan
  of the list (each such driver is cleaned up), then popped from the last to the first.
  \<open>list.pop(i)\<close> raises \<open>IndexError\<close> out of range.
\<close>

definition prunable :: "response_driver \<Rightarrow> bool" where
  "prunable x = (\<not> is_alive x \<and> icomm_is_confirmed_recv x \<and> ocomm_is_confirmed_send x)"

definition remove_idx :: "response_driver list \<Rightarrow> nat list" where
  "remove_idx xs = map fst (filter (\<lambda>(i, x). prunable x) (enumerate 0 xs))"

definition pop :: "nat \<Rightarrow> 'a list \<Rightarrow> error + 'a list" where
  "pop i xs = (if i < length xs then Inr (take i xs @ drop (Suc i) xs)
               else Inl (OtherException ''IndexError: pop index out of range''))"

fun pop_all :: "nat list \<Rightarrow> 'a list \<Rightarrow> error + 'a list" where
  "pop_all [] xs = Inr xs"
| "pop_all (i # js) xs = (case pop i xs of Inl e \<Rightarrow> Inl e | Inr ys \<Rightarrow> pop_all js ys)"

definition prune_response_drivers :: "request_driver \<Rightarrow> error + request_driver" where
  "prune_response_drivers self =
     (case pop_all (rev (remove_idx (response_drivers self))) (response_drivers self) of
        Inl e \<Rightarrow> Inl e
      | Inr xs \<Rightarrow>
          Inr (self\<lparr>response_drivers := xs,
                    trace := trace self @ map Cleanup (filter prunable (response_drivers self))\<rparr>))"

definition run_loop :: "collaborators \<Rightarrow> request_driver \<Rightarrow> error + request_driver" where
  "run_loop env self =
     (let self1 = base_run_loop env self
      in if \<not> was_break self1 then prune_response_drivers self1 else Inr self1)"

text \<open>
  The clients named in \<open>order\<close> sign off one after the other: the driver handles an EOF
  message from each.
\<close>

definition eof_from :: "string \<Rightarrow> comm_message" where
  "eof_from c = \<lparr>flag = FLAG_EOF, args = ''EOF'', header = [(''model'', c)]\<rparr>"

fun sign_off_all :: "collaborators \<Rightarrow> string list \<Rightarrow> request_driver \<Rightarrow> request_driver" where
  "sign_off_all env [] self = self"
| "sign_off_all env (c # cs) self = sign_off_all env cs (snd (on_eof env (eof_from c) self))"

definition client_end :: "string \<Rightarrow> event" where
  "client_end c = BaseSend client_eof_message (client_eof_kwargs c)"

section \<open>Concrete collaborators, drivers and messages used to run the driver\<close>

text \<open>
  Collaborators that never fail: the constructor binds the driver to the address it is
  given, \<^verbatim>\<open>start\<close> makes the thread alive, the base pump's send succeeds.
\<close>

definition echo_env :: collaborators where
  "echo_env =
     \<lparr> new_response_driver = (\<lambda>address request_id request_name inputs outputs.
         Inr \<lparr>response_address = address, is_alive = False,
              icomm_is_confirmed_recv = False, ocomm_is_confirmed_send = False\<rparr>),
       start_response_driver = (\<lambda>d. Inr (d\<lparr>is_alive := True\<rparr>)),
       base_send_result = (\<lambda>self msg kwargs. True),
       base_on_eof_result = (\<lambda>self msg. msg),
       base_run_loop = (\<lambda>self. self) \<rparr>"

text \<open>The same, but no thread can be started; and the same, but no driver can be built.\<close>

definition failing_start_env :: collaborators where
  "failing_start_env =
     echo_env\<lparr>start_response_driver := (\<lambda>d. Inl (OtherException ''cannot start new thread''))\<rparr>"

definition failing_new_env :: collaborators where
  "failing_new_env =
     echo_env\<lparr>new_response_driver := (\<lambda>address request_id request_name inputs outputs.
       Inl (OtherException ''cannot open comm''))\<rparr>"

definition three_clients :: request_driver where
  "three_clients =
     \<lparr> driver_name = ''rpc'', response_kwargs = [(''commtype'', JString ''zmq'')],
       response_drivers = [], block_response = False, ocomm_is_closed = False,
       is_comm_open = True, models_input = [''A'', ''B'', ''C''],
       models_output = [''server''], was_break = False, icomm_empty_obj_recv = [],
       trace = [] \<rparr>"


definition ping_request :: comm_message where
  "ping_request =
     \<lparr> flag = FLAG_SUCCESS, args = ''ping'',
       header = [(''response_address'', ''addr1''), (''request_id'', ''r1''),
                 (''commtype'', ''zmq''), (''model'', ''A'')] \<rparr>"

definition no_kwargs :: send_kwargs where
  "no_kwargs = \<lparr>header_kwargs = None, skip_processing = False\<rparr>"

definition ping_route :: "bool \<Rightarrow> response_driver" where
  "ping_route alive =
     \<lparr>response_address = ''addr1'', is_alive = alive,
      icomm_is_confirmed_recv = False, ocomm_is_confirmed_send = False\<rparr>"

definition ping_tags :: send_kwargs where
  "ping_tags =
     \<lparr>header_kwargs = Some [(''response_address'', JString ''addr1''),
                             (''request_id'', JString ''r1''), (''model'', JString ''A'')],
      skip_processing = False\<rparr>"

text \<open>
  Three response drivers: one that has delivered its message, one still running, one that
  has stopped while its output comm has not confirmed the send.
\<close>

definition delivered_route :: response_driver where
  "delivered_route =
     \<lparr>response_address = ''addr1'', is_alive = False,
      icomm_is_confirmed_recv = True, ocomm_is_confirmed_send = True\<rparr>"

definition running_route :: response_driver where
  "running_route =
     \<lparr>response_address = ''addr2'', is_alive = True,
      icomm_is_confirmed_recv = True, ocomm_is_confirmed_send = True\<rparr>"

definition unconfirmed_route :: response_driver where
  "unconfirmed_route =
     \<lparr>response_address = ''addr3'', is_alive = False,
      icomm_is_confirmed_recv = True, ocomm_is_confirmed_send = False\<rparr>"

definition with_routes :: request_driver where
  "with_routes =
     three_clients\<lparr>response_drivers := [delivered_route, running_route, unconfirmed_route]\<rparr>"

section \<open>Byte-string search\<close>

lemma bytes_contains_iff: "bytes_contains s m \<longleftrightarrow> (\<exists>a b. m = a @ s @ b)"
proof (induction m)
  case Nil
  then show ?case by auto
next
  case (Cons c cs)
  show ?case
  proof
    assume "bytes_contains s (c # cs)"
    then consider "prefix s (c # cs)" | "bytes_contains s cs" by auto
    then show "\<exists>a b. c # cs = a @ s @ b"
    proof cases
      case 1
      then obtain b where "c # cs = s @ b" by (auto simp: prefix_def)
      then have "c # cs = [] @ s @ b" by simp
      then show ?thesis by blast
    next
      case 2
      with Cons.IH obtain a b where "cs = a @ s @ b" by blast
      then have "c # cs = (c # a) @ s @ b" by simp
      then show ?thesis by blast
    qed
  next
    assume "\<exists>a b. c # cs = a @ s @ b"
    then obtain a b where ab: "c # cs = a @ s @ b" by blast
    show "bytes_contains s (c # cs)"
    proof (cases a)
      case Nil
      with ab have "prefix s (c # cs)" by (simp add: prefix_def)
      then show ?thesis by simp
    next
      case (Cons x a')
      with ab have "cs = a' @ s @ b" by simp
      with Cons.IH have "bytes_contains s cs" by blast
      then show ?thesis by simp
    qed
  qed
qed

section \<open>Deserializing: the empty envelope and malformed input\<close>

text \<open>
  C4. For every type, every instance typedef and every header parser, \<^verbatim>\<open>deserialize\<close> of
  the zero-length byte string returns the type's empty object with the empty header
  \<open>{}\<close>. It returns, whatever \<^verbatim>\<open>decode\<close> and the parser would do: neither is consulted.
\<close>

theorem deserialize_empty_envelope:
  "deserialize T td json_loads (PyBytes []) = Inr (empty_msg T, JDict [])"
  by (simp add: deserialize_def)

text \<open>
  The base class, all of whose coding methods raise, with a parser that raises: the empty
  envelope still deserializes.
\<close>

theorem deserialize_empty_envelope_witness:
  "deserialize (CisBaseType PyNone) [] (\<lambda>h. Inl (OtherException ''no parser''))
     (PyBytes []) = Inr (PyNone, JDict [])"
  using deserialize_empty_envelope
    [of "CisBaseType PyNone" "[]" "\<lambda>h. Inl (OtherException ''no parser'')"]
  by (simp add: CisBaseType_def)

text \<open>
  C10. \<^verbatim>\<open>deserialize\<close> of anything that is not a byte string raises \<open>TypeError\<close>, and
  of a non-empty byte string in which the separator does not occur raises \<open>ValueError\<close>; in
  both cases the result is the exception alone, no object and no header.
\<close>

theorem deserialize_fails_fast:
  "((\<forall>b. msg \<noteq> PyBytes b) \<longrightarrow>
      deserialize T td json_loads msg =
        Inl (PyTypeError ''Message to be deserialized is not bytes type.'')) \<and>
   (b \<noteq> [] \<and> \<not> bytes_contains sep b \<longrightarrow>
      deserialize T td json_loads (PyBytes b) = Inl (ValueError ''Separator not in message.''))"
  by (cases msg) (simp_all add: deserialize_def)

theorem deserialize_fails_fast_witness:
  "deserialize raw_bytes_type [] (\<lambda>h. Inr (JDict [])) (PyStr ''{}:CIS_TAG:abc'') =
     Inl (PyTypeError ''Message to be deserialized is not bytes type.'') \<and>
   deserialize raw_bytes_type [] (\<lambda>h. Inr (JDict [])) (PyBytes ''{}CIS_TAG:abc'') =
     Inl (ValueError ''Separator not in message.'')"
  using deserialize_fails_fast
    [of "PyStr ''{}:CIS_TAG:abc''" raw_bytes_type "[]" "\<lambda>h. Inr (JDict [])" "''{}CIS_TAG:abc''"]
  by (simp add: sep_def)

section \<open>Request dispatch: the reply route comes first\<close>

lemma send_message_trace_grows:
  "\<exists>evs. trace (snd (send_message env msg kwargs self)) = trace self @ evs"
  by (auto simp: send_message_def base_send_message_def Let_def split: sum.splits)

text \<open>
  C1. Whenever \<^verbatim>\<open>send_message\<close>, called with a message that is not an EOF, hands a message
  to the base pump's send, the call has done exactly this, in this order: it built the
  response driver for the message's \<open>response_address\<close> and \<open>request_id\<close>, the driver's
  \<^verbatim>\<open>start\<close> returned without raising, and only then the message, tagged, went to the base
  pump. The started driver is the last of \<open>response_drivers\<close>.
\<close>

theorem send_message_reply_route_first:
  assumes "flag msg \<noteq> FLAG_EOF"
    and "send_message env msg kwargs self = (res, self')"
    and "BaseSend m k \<in> set (drop (length (trace self)) (trace self'))"
  shows "\<exists>address request_id commtype d d'.
           map_of (header msg) ''response_address'' = Some address \<and>
           map_of (header msg) ''request_id'' = Some request_id \<and>
           map_of (header msg) ''commtype'' = Some commtype \<and>
           new_response_driver env address request_id (driver_name self)
             [response_kwargs self] [[(''commtype'', JString commtype)]] = Inr d \<and>
           start_response_driver env d = Inr d' \<and>
           trace self' =
             trace self @ [Constructed address request_id d, Started d', BaseSend m k] \<and>
           response_drivers self' = response_drivers self @ [d'] \<and>
           m = msg \<and> k = tag_request kwargs d' request_id msg"
  using assms
  by (auto simp: send_message_def base_send_message_def header_item_def Let_def
      split: sum.splits if_splits option.splits)

lemma send_message_ping:
  "send_message echo_env ping_request no_kwargs three_clients =
     (Inr True,
      three_clients\<lparr>response_drivers := [ping_route True],
        trace := [Constructed ''addr1'' ''r1'' (ping_route False), Started (ping_route True),
                  BaseSend ping_request ping_tags]\<rparr>)"
  by (simp add: send_message_def base_send_message_def header_item_def echo_env_def
      ping_request_def no_kwargs_def three_clients_def ping_route_def ping_tags_def
      tag_request_def setdefault_def header_model_def)

theorem send_message_reply_route_first_witness:
  "flag ping_request \<noteq> FLAG_EOF \<and>
   BaseSend ping_request ping_tags
     \<in> set (drop (length (trace three_clients))
              (trace (snd (send_message echo_env ping_request no_kwargs three_clients)))) \<and>
   (\<exists>d d'. new_response_driver echo_env ''addr1'' ''r1'' (driver_name three_clients)
             [response_kwargs three_clients] [[(''commtype'', JString ''zmq'')]] = Inr d \<and>
           start_response_driver echo_env d = Inr d' \<and>
           trace (snd (send_message echo_env ping_request no_kwargs three_clients)) =
             trace three_clients @
             [Constructed ''addr1'' ''r1'' d, Started d', BaseSend ping_request ping_tags])"
proof -
  have h1: "flag ping_request \<noteq> FLAG_EOF"
    by (simp add: ping_request_def)
  have h2: "send_message echo_env ping_request no_kwargs three_clients =
      (fst (send_message echo_env ping_request no_kwargs three_clients),
       snd (send_message echo_env ping_request no_kwargs three_clients))"
    by simp
  have h3: "BaseSend ping_request ping_tags
     \<in> set (drop (length (trace three_clients))
              (trace (snd (send_message echo_env ping_request no_kwargs three_clients))))"
    by (simp add: send_message_ping) (simp add: three_clients_def)
  have hdr: "map_of (header ping_request) ''response_address'' = Some ''addr1''"
    "map_of (header ping_request) ''request_id'' = Some ''r1''"
    "map_of (header ping_request) ''commtype'' = Some ''zmq''"
    by (simp_all add: ping_request_def)
  from send_message_reply_route_first [OF h1 h2 h3] hdr h1 h3 show ?thesis
    by auto
qed

text \<open>
  C6, as the code has it. When the construction of the response driver raises,
  \<^verbatim>\<open>send_message\<close> returns \<open>False\<close> and leaves the driver as it was: nothing is handed to
  the base pump and \<open>response_drivers\<close> is unchanged. When the construction succeeds and
  \<^verbatim>\<open>start\<close> raises, \<^verbatim>\<open>send_message\<close> returns \<open>False\<close> as well and nothing is handed to
  the base pump, but the driver that was built, not started, stays at the end of
  \<open>response_drivers\<close>: it was appended before \<^verbatim>\<open>start\<close> was called.
\<close>

theorem send_message_route_failure:
  assumes "\<not> ocomm_is_closed self" and "flag msg \<noteq> FLAG_EOF"
    and "is_comm_open self" and "\<not> block_response self"
    and "map_of (header msg) ''response_address'' = Some address"
    and "map_of (header msg) ''request_id'' = Some request_id"
    and "map_of (header msg) ''commtype'' = Some commtype"
  shows "(\<forall>e. new_response_driver env address request_id (driver_name self)
               [response_kwargs self] [[(''commtype'', JString commtype)]] = Inl e \<longrightarrow>
            send_message env msg kwargs self = (Inr False, self)) \<and>
         (\<forall>d e. new_response_driver env address request_id (driver_name self)
               [response_kwargs self] [[(''commtype'', JString commtype)]] = Inr d \<and>
               start_response_driver env d = Inl e \<longrightarrow>
            send_message env msg kwargs self =
              (Inr False,
               self\<lparr>response_drivers := response_drivers self @ [d],
                    trace := trace self @ [Constructed address request_id d]\<rparr>))"
  using assms by (simp add: send_message_def header_item_def)

theorem send_message_route_failure_witness:
  "send_message failing_new_env ping_request no_kwargs three_clients =
     (Inr False, three_clients) \<and>
   send_message failing_start_env ping_request no_kwargs three_clients =
     (Inr False,
      three_clients\<lparr>response_drivers := response_drivers three_clients @ [ping_route False],
        trace := trace three_clients @ [Constructed ''addr1'' ''r1'' (ping_route False)]\<rparr>)"
proof -
  have pre: "\<not> ocomm_is_closed three_clients" "flag ping_request \<noteq> FLAG_EOF"
    "is_comm_open three_clients" "\<not> block_response three_clients"
    "map_of (header ping_request) ''response_address'' = Some ''addr1''"
    "map_of (header ping_request) ''request_id'' = Some ''r1''"
    "map_of (header ping_request) ''commtype'' = Some ''zmq''"
    by (simp_all add: three_clients_def ping_request_def)
  from send_message_route_failure [OF pre, of failing_new_env no_kwargs]
  have a: "send_message failing_new_env ping_request no_kwargs three_clients =
     (Inr False, three_clients)"
    by (simp add: failing_new_env_def echo_env_def)
  from send_message_route_failure [OF pre, of failing_start_env no_kwargs]
  have b: "send_message failing_start_env ping_request no_kwargs three_clients =
     (Inr False,
      three_clients\<lparr>response_drivers := response_drivers three_clients @ [ping_route False],
        trace := trace three_clients @ [Constructed ''addr1'' ''r1'' (ping_route False)]\<rparr>)"
    by (simp add: failing_start_env_def echo_env_def ping_route_def)
  from a b show ?thesis by simp
qed

text \<open>
  C6, as the claim states it, fails: with a \<^verbatim>\<open>start\<close> that raises, the request driver had no
  response driver before the call and has one after it, for a request that was not sent.
\<close>

theorem send_message_failed_start_counterexample:
  "start_response_driver failing_start_env (ping_route False) =
     Inl (OtherException ''cannot start new thread'') \<and>
   fst (send_message failing_start_env ping_request no_kwargs three_clients) = Inr False \<and>
   response_drivers three_clients = [] \<and>
   response_drivers (snd (send_message failing_start_env ping_request no_kwargs three_clients)) =
     [ping_route False]"
  by (simp add: send_message_def header_item_def failing_start_env_def echo_env_def
      ping_request_def no_kwargs_def three_clients_def ping_route_def)

section \<open>Pruning the response drivers\<close>

lemma remove_idx_snoc:
  "remove_idx (xs @ [x]) = remove_idx xs @ (if prunable x then [length xs] else [])"
  by (simp add: remove_idx_def enumerate_append_eq)

lemma remove_idx_bound: "j \<in> set (remove_idx xs) \<Longrightarrow> j < length xs"
  by (auto simp: remove_idx_def in_set_enumerate_eq)

lemma remove_idx_decreasing: "sorted_wrt (>) (rev (remove_idx xs))"
proof (induction xs rule: rev_induct)
  case Nil
  then show ?case by (simp add: remove_idx_def)
next
  case (snoc x xs)
  then show ?case
    by (auto simp: remove_idx_snoc dest: remove_idx_bound)
qed

text \<open>
  Popping strictly decreasing indices, all within the list, never raises, and is not
  disturbed by what follows the list.
\<close>

lemma pop_all_append:
  "sorted_wrt (>) js \<Longrightarrow> \<forall>j\<in>set js. j < length xs \<Longrightarrow>
     \<exists>zs. pop_all js xs = Inr zs \<and> pop_all js (xs @ ys) = Inr (zs @ ys)"
proof (induction js arbitrary: xs)
  case Nil
  then show ?case by simp
next
  case (Cons j js)
  let ?xs' = "take j xs @ drop (Suc j) xs"
  from Cons.prems have j: "j < length xs" by simp
  have len: "length ?xs' = length xs - 1" using j by simp
  have "\<forall>i\<in>set js. i < length ?xs'"
  proof
    fix i assume "i \<in> set js"
    with Cons.prems(1) have "i < j" by auto
    with j show "i < length ?xs'" unfolding len by simp
  qed
  moreover from Cons.prems(1) have "sorted_wrt (>) js" by simp
  ultimately obtain zs where "pop_all js ?xs' = Inr zs" "pop_all js (?xs' @ ys) = Inr (zs @ ys)"
    using Cons.IH by blast
  with j show ?case by (simp add: pop_def)
qed

lemma pop_all_remove_idx:
  "pop_all (rev (remove_idx xs)) xs = Inr (filter (\<lambda>x. \<not> prunable x) xs)"
proof (induction xs rule: rev_induct)
  case Nil
  then show ?case by (simp add: remove_idx_def)
next
  case (snoc x xs)
  show ?case
  proof (cases "prunable x")
    case True
    with snoc show ?thesis by (simp add: remove_idx_snoc pop_def)
  next
    case False
    have "\<forall>j\<in>set (rev (remove_idx xs)). j < length xs"
      by (simp add: remove_idx_bound)
    from pop_all_append [OF remove_idx_decreasing this, of "[x]"]
    obtain zs where "pop_all (rev (remove_idx xs)) xs = Inr zs"
      "pop_all (rev (remove_idx xs)) (xs @ [x]) = Inr (zs @ [x])"
      by auto
    with snoc False show ?thesis by (simp add: remove_idx_snoc)
  qed
qed

lemma prune_response_drivers_eq:
  "prune_response_drivers self =
     Inr (self\<lparr>response_drivers := filter (\<lambda>x. \<not> prunable x) (response_drivers self),
               trace := trace self @ map Cleanup (filter prunable (response_drivers self))\<rparr>)"
  by (simp add: prune_response_drivers_def pop_all_remove_idx)

text \<open>
  C8. A prune pass returns (no \<open>pop\<close> is out of range) and keeps, in their order, exactly
  the response drivers that are still alive or whose input comm has not confirmed the
  receive or whose output comm has not confirmed the send; the others, and only they, are
  cleaned up and removed. \<^verbatim>\<open>run_loop\<close> runs the base pump's loop and then the prune pass,
  except when the loop was broken (\<open>was_break\<close>): then nothing is pruned.
\<close>

theorem prune_removes_exactly_the_finished:
  "(\<exists>self'. prune_response_drivers self = Inr self' \<and>
      response_drivers self' =
        filter (\<lambda>x. is_alive x \<or> \<not> icomm_is_confirmed_recv x \<or> \<not> ocomm_is_confirmed_send x)
          (response_drivers self) \<and>
      trace self' = trace self @
        map Cleanup
          (filter (\<lambda>x. \<not> is_alive x \<and> icomm_is_confirmed_recv x \<and> ocomm_is_confirmed_send x)
            (response_drivers self))) \<and>
   (was_break (base_run_loop env self) \<longrightarrow> run_loop env self = Inr (base_run_loop env self)) \<and>
   (\<not> was_break (base_run_loop env self) \<longrightarrow>
      run_loop env self = prune_response_drivers (base_run_loop env self))"
  by (simp add: prune_response_drivers_eq run_loop_def Let_def prunable_def [abs_def])

theorem prune_removes_exactly_the_finished_witness:
  "prune_response_drivers with_routes =
     Inr (with_routes\<lparr>response_drivers := [running_route, unconfirmed_route],
                      trace := [Cleanup delivered_route]\<rparr>) \<and>
   run_loop echo_env with_routes = prune_response_drivers with_routes \<and>
   run_loop echo_env (with_routes\<lparr>was_break := True\<rparr>) = Inr (with_routes\<lparr>was_break := True\<rparr>)"
  using prune_removes_exactly_the_finished [of with_routes echo_env]
    prune_removes_exactly_the_finished [of "with_routes\<lparr>was_break := True\<rparr>" echo_env]
  by (simp add: prune_response_drivers_eq prunable_def [abs_def] echo_env_def with_routes_def
      three_clients_def delivered_route_def running_route_def unconfirmed_route_def)

section \<open>Client sign-off\<close>

lemma on_eof_client:
  assumes "c \<in> set (models_input s)"
  shows "on_eof env (eof_from c) s =
     (if removeAll c (models_input s) = []
      then (base_on_eof_result env
              (s\<lparr>models_input := [], trace := trace s @ [client_end c, SendEof]\<rparr>)
              (eof_from c),
            s\<lparr>models_input := [],
              trace := trace s @ [client_end c, SendEof, BaseOnEof (eof_from c)]\<rparr>)
      else (\<lparr>flag = FLAG_EMPTY, args = icomm_empty_obj_recv s, header = []\<rparr>,
            s\<lparr>models_input := removeAll c (models_input s),
              trace := trace s @ [client_end c]\<rparr>))"
  using assms
  by (simp add: on_eof_def remove_model_def base_remove_model_def base_send_message_def
      send_eof_def clients_def nclients_def models_def header_model_def eof_from_def Let_def
      client_end_def)

lemma on_eof_models_input:
  "models_input (snd (on_eof env msg s)) = removeAll (header_model msg) (models_input s)"
  by (simp add: on_eof_def remove_model_def base_remove_model_def base_send_message_def
      send_eof_def clients_def nclients_def models_def Let_def)

lemma filter_removeAll_Cons:
  "filter (\<lambda>n. n \<notin> set pre) (removeAll c l) = filter (\<lambda>n. n \<notin> set (c # pre)) l"
  by (induction l) auto

lemma sign_off_all_models_input:
  "models_input (sign_off_all env pre s) = filter (\<lambda>n. n \<notin> set pre) (models_input s)"
proof (induction pre arbitrary: s)
  case Nil
  then show ?case by simp
next
  case (Cons c pre)
  have "header_model (eof_from c) = c"
    by (simp add: header_model_def eof_from_def)
  then show ?case
    by (simp only: sign_off_all.simps Cons.IH on_eof_models_input filter_removeAll_Cons)
qed

lemma sign_off_all_append:
  "sign_off_all env (xs @ ys) s = sign_off_all env ys (sign_off_all env xs s)"
  by (induction xs arbitrary: s) auto

text \<open>While a client that has not signed off remains, only client-end sentinels go out.\<close>

lemma sign_off_some:
  "distinct pre \<Longrightarrow> set pre \<subseteq> set (models_input s) \<Longrightarrow> \<not> set (models_input s) \<subseteq> set pre \<Longrightarrow>
   sign_off_all env pre s =
     s\<lparr>models_input := filter (\<lambda>n. n \<notin> set pre) (models_input s),
       trace := trace s @ map client_end pre\<rparr>"
proof (induction pre arbitrary: s)
  case Nil
  then show ?case by simp
next
  case (Cons c pre)
  let ?s1 = "s\<lparr>models_input := removeAll c (models_input s),
              trace := trace s @ [client_end c]\<rparr>"
  from Cons.prems have c: "c \<in> set (models_input s)" by simp
  from Cons.prems(3) obtain n where "n \<in> set (models_input s)" "n \<notin> set (c # pre)"
    by blast
  then have "n \<in> set (removeAll c (models_input s))" by simp
  then have ne: "removeAll c (models_input s) \<noteq> []" by force
  have step: "snd (on_eof env (eof_from c) s) = ?s1"
    using on_eof_client [OF c, of env] ne by simp
  have "sign_off_all env pre ?s1 =
      ?s1\<lparr>models_input := filter (\<lambda>n. n \<notin> set pre) (models_input ?s1),
          trace := trace ?s1 @ map client_end pre\<rparr>"
    using Cons.prems by (intro Cons.IH) auto
  then show ?case
    by (simp only: sign_off_all.simps step filter_removeAll_Cons)
      (simp add: filter_removeAll_Cons [symmetric] del: set_simps)
qed

text \<open>The sign-off of the last client: its sentinel, then the EOF, then the base pump's EOF handling.\<close>

lemma sign_off_last:
  assumes "distinct (pre @ [c])" and "set (pre @ [c]) = set (models_input s)"
  shows "on_eof env (eof_from c) (sign_off_all env pre s) =
      (base_on_eof_result env
         (s\<lparr>models_input := [], trace := trace s @ map client_end pre @ [client_end c, SendEof]\<rparr>)
         (eof_from c),
       s\<lparr>models_input := [],
         trace := trace s @ map client_end pre @ [client_end c, SendEof, BaseOnEof (eof_from c)]\<rparr>)"
proof -
  from assms have d: "distinct pre" and sub: "set pre \<subseteq> set (models_input s)"
    and c: "c \<in> set (models_input s)" "c \<notin> set pre"
    by auto
  then have "\<not> set (models_input s) \<subseteq> set pre" by blast
  from sign_off_some [OF d sub this, of env]
  have s1: "sign_off_all env pre s =
     s\<lparr>models_input := filter (\<lambda>n. n \<notin> set pre) (models_input s),
       trace := trace s @ map client_end pre\<rparr>" .
  have cin: "c \<in> set (filter (\<lambda>n. n \<notin> set pre) (models_input s))"
    using c by simp
  have "removeAll c (filter (\<lambda>n. n \<notin> set pre) (models_input s)) =
      filter (\<lambda>n. n \<notin> set (pre @ [c])) (models_input s)"
    by (induction "models_input s") (auto simp: removeAll_filter_not_eq intro: filter_cong)
  also have "\<dots> = []"
    using assms(2) by (simp add: filter_empty_conv)
  finally have emp: "removeAll c (filter (\<lambda>n. n \<notin> set pre) (models_input s)) = []" .
  show ?thesis
    unfolding s1 using on_eof_client [of c "s\<lparr>models_input := filter (\<lambda>n. n \<notin> set pre) (models_input s),
       trace := trace s @ map client_end pre\<rparr>" env] cin emp
    by simp
qed

text \<open>
  C2. The clients of the driver sign off, each once, in any order \<open>order\<close>. At the sign-off
  of a client \<open>c\<close>, after those of \<open>pre\<close> and before those of \<open>post\<close>:
  the client set strictly shrinks; if clients remain (\<open>post\<close> is not empty) the driver has
  sent nothing but one client-end sentinel per sign-off so far, no EOF, and \<^verbatim>\<open>on_eof\<close>
  answers with an EMPTY message. After the whole of \<open>order\<close> the driver has sent the
  sentinels, then \<^verbatim>\<open>send_eof\<close> once, then handed the EOF to the base pump's \<^verbatim>\<open>on_eof\<close>
  once, and the client set is empty.
\<close>

theorem client_sign_off_eof_once:
  assumes "distinct order" and "set order = set (models_input self)"
    and "order = pre @ c # post"
  shows "set (models_input (sign_off_all env (pre @ [c]) self))
           \<subset> set (models_input (sign_off_all env pre self)) \<and>
         (post \<noteq> [] \<longrightarrow>
            trace (sign_off_all env (pre @ [c]) self) = trace self @ map client_end (pre @ [c]) \<and>
            flag (fst (on_eof env (eof_from c) (sign_off_all env pre self))) = FLAG_EMPTY) \<and>
         trace (sign_off_all env order self) =
           trace self @ map client_end order @ [SendEof, BaseOnEof (eof_from (last order))] \<and>
         models_input (sign_off_all env order self) = []"
proof -
  from assms have c: "c \<in> set (models_input self)" "c \<notin> set pre" by auto
  have shrink: "set (models_input (sign_off_all env (pre @ [c]) self))
           \<subset> set (models_input (sign_off_all env pre self))"
    using c by (auto simp: sign_off_all_models_input)
  have some: "trace (sign_off_all env (pre @ [c]) self) = trace self @ map client_end (pre @ [c]) \<and>
            flag (fst (on_eof env (eof_from c) (sign_off_all env pre self))) = FLAG_EMPTY"
    if "post \<noteq> []"
  proof -
    from that obtain p where p: "p \<in> set post" by (cases post) auto
    with assms have pin: "p \<in> set (models_input self)" "p \<notin> set (pre @ [c])" by auto
    from assms have d: "distinct (pre @ [c])" "distinct pre" by auto
    from assms have sub: "set (pre @ [c]) \<subseteq> set (models_input self)"
      "set pre \<subseteq> set (models_input self)" by auto
    from pin have nsub: "\<not> set (models_input self) \<subseteq> set (pre @ [c])"
      "\<not> set (models_input self) \<subseteq> set pre" by auto
    have a: "sign_off_all env (pre @ [c]) self =
        self\<lparr>models_input := filter (\<lambda>n. n \<notin> set (pre @ [c])) (models_input self),
          trace := trace self @ map client_end (pre @ [c])\<rparr>"
      by (rule sign_off_some [OF d(1) sub(1) nsub(1)])
    have b: "sign_off_all env pre self =
        self\<lparr>models_input := filter (\<lambda>n. n \<notin> set pre) (models_input self),
          trace := trace self @ map client_end pre\<rparr>"
      by (rule sign_off_some [OF d(2) sub(2) nsub(2)])
    have cin: "c \<in> set (models_input (sign_off_all env pre self))"
      using c by (simp add: sign_off_all_models_input)
    have "p \<in> set (removeAll c (models_input (sign_off_all env pre self)))"
      using pin by (simp add: sign_off_all_models_input)
    then have ne: "removeAll c (models_input (sign_off_all env pre self)) \<noteq> []" by force
    from on_eof_client [OF cin, of env] ne
    have "flag (fst (on_eof env (eof_from c) (sign_off_all env pre self))) = FLAG_EMPTY"
      by simp
    with a show ?thesis by simp
  qed
  from assms(3) have "order \<noteq> []" by simp
  then have ord: "order = butlast order @ [last order]" by simp
  with assms have dl: "distinct (butlast order @ [last order])"
    "set (butlast order @ [last order]) = set (models_input self)"
    by simp_all
  have "sign_off_all env order self =
      snd (on_eof env (eof_from (last order)) (sign_off_all env (butlast order) self))"
    by (subst ord) (simp add: sign_off_all_append)
  also have "\<dots> = self\<lparr>models_input := [],
         trace := trace self @ map client_end (butlast order) @
            [client_end (last order), SendEof, BaseOnEof (eof_from (last order))]\<rparr>"
    by (simp add: sign_off_last [OF dl])
  finally have fin: "sign_off_all env order self = self\<lparr>models_input := [],
         trace := trace self @ map client_end (butlast order) @
            [client_end (last order), SendEof, BaseOnEof (eof_from (last order))]\<rparr>" .
  have "map client_end order = map client_end (butlast order) @ [client_end (last order)]"
    by (subst ord) simp
  with fin have full: "trace (sign_off_all env order self) =
           trace self @ map client_end order @ [SendEof, BaseOnEof (eof_from (last order))]"
    "models_input (sign_off_all env order self) = []"
    by simp_all
  from shrink some full show ?thesis by blast
qed

text \<open>Clients A, B and C sign off in the order B, A, C.\<close>

theorem client_sign_off_eof_once_witness:
  "set (models_input (sign_off_all echo_env [''B'', ''A''] three_clients))
     \<subset> set (models_input (sign_off_all echo_env [''B''] three_clients)) \<and>
   trace (sign_off_all echo_env [''B'', ''A''] three_clients) =
     [client_end ''B'', client_end ''A''] \<and>
   flag (fst (on_eof echo_env (eof_from ''A'') (sign_off_all echo_env [''B''] three_clients))) =
     FLAG_EMPTY \<and>
   trace (sign_off_all echo_env [''B'', ''A'', ''C''] three_clients) =
     [client_end ''B'', client_end ''A'', client_end ''C'', SendEof, BaseOnEof (eof_from ''C'')] \<and>
   models_input (sign_off_all echo_env [''B'', ''A'', ''C''] three_clients) = []"
proof -
  have h: "distinct [''B'', ''A'', ''C'']"
    "set [''B'', ''A'', ''C''] = set (models_input three_clients)"
    "[''B'', ''A'', ''C''] = [''B''] @ ''A'' # [''C'']"
    by (auto simp: three_clients_def)
  have t: "trace three_clients = []" by (simp add: three_clients_def)
  from client_sign_off_eof_once [OF h, of echo_env] t show ?thesis by simp
qed

section \<open>Removing a model twice\<close>








section \<open>Encoding and decoding\<close>

lemma encode_Inr:
  assumes "encode T obj typedef = Inr (metadata, data)"
  shows "\<exists>obj_t md.
           check_decoded T obj typedef = Inr True \<and>
           transform_type T obj typedef = Inr obj_t \<and>
           encode_type T obj_t = Inr md \<and>
           metadata = dict_set md ''typename'' (JString (name T)) \<and>
           encode_data T obj_t metadata = Inr (PyBytes data) \<and>
           check_encoded T (JDict metadata) typedef"
  using assms
  by (auto simp: encode_def Let_def split: sum.splits bool.splits if_splits pyobj.splits)

text \<open>
  C5, as the code has it. When \<^verbatim>\<open>check_decoded\<close> is false for an object and a typedef,
  \<^verbatim>\<open>encode\<close> raises \<open>ValueError\<close> ("Object is not correct type for encoding."), which is
  not a \<open>TypeError\<close>, and returns no metadata and no payload.
\<close>

theorem encode_rejects_with_ValueError:
  assumes "check_decoded T obj typedef = Inr False"
  shows "encode T obj typedef = Inl (ValueError ''Object is not correct type for encoding.'') \<and>
         \<not> is_type_error (ValueError ''Object is not correct type for encoding.'')"
  using assms by (simp add: encode_def)

theorem encode_rejects_with_ValueError_witness:
  "check_decoded raw_bytes_type (PyInt 5) None = Inr False \<and>
   encode raw_bytes_type (PyInt 5) None =
     Inl (ValueError ''Object is not correct type for encoding.'')"
proof -
  have h: "check_decoded raw_bytes_type (PyInt 5) None = Inr False"
    by (simp add: check_decoded_def raw_bytes_type_def)
  from encode_rejects_with_ValueError [OF h] h show ?thesis by simp
qed

text \<open>
  C5, as the claim states it, fails: an integer is not of the byte-string type, and the
  exception \<^verbatim>\<open>encode\<close> raises for it is no \<open>TypeError\<close>.
\<close>

theorem encode_type_error_counterexample:
  "check_decoded raw_bytes_type (PyInt 5) None = Inr False \<and>
   \<not> (\<exists>e. encode raw_bytes_type (PyInt 5) None = Inl e \<and> is_type_error e)"
  by (simp add: check_decoded_def encode_def raw_bytes_type_def)

text \<open>
  C3, as the code has it. Let \<^verbatim>\<open>encode\<close> of an object under a typedef succeed (the object
  is then valid under the typedef). If the type's own methods round-trip, that is
  \<^verbatim>\<open>decode_data\<close> of the returned payload and metadata is the object as \<^verbatim>\<open>encode\<close>
  transformed it, and \<^verbatim>\<open>transform_type\<close> takes that back to the object, then \<^verbatim>\<open>decode\<close>
  of the returned metadata and payload, with the same typedef, returns the object, and
  \<^verbatim>\<open>check_decoded\<close> of it is true.
\<close>

theorem decode_encode_roundtrip:
  assumes "encode T obj typedef = Inr (metadata, data)"
    and "transform_type T obj typedef = Inr obj_t"
    and "decode_data T data (JDict metadata) = Inr obj_t"
    and "transform_type T obj_t typedef = Inr obj"
  shows "decode T (JDict metadata) data typedef = Inr obj \<and>
         check_decoded T obj typedef = Inr True"
proof -
  from encode_Inr [OF assms(1)] assms(2) obtain md where
    valid: "check_decoded T obj typedef = Inr True"
    and md: "encode_type T obj_t = Inr md"
      "metadata = dict_set md ''typename'' (JString (name T))"
    and ok: "check_encoded T (JDict metadata) typedef"
    by auto
  from md ok have "check_decoded T obj_t typedef = Inr True"
    by (simp add: check_decoded_def)
  with ok assms(3,4) have "decode T (JDict metadata) data typedef = Inr obj"
    by (simp add: decode_def)
  with valid show ?thesis by simp
qed

theorem decode_encode_roundtrip_witness:
  "encode raw_bytes_type (PyBytes ''ping'') (Some [(''typename'', JString ''bytes'')]) =
     Inr ([(''typename'', JString ''bytes'')], ''ping'') \<and>
   decode raw_bytes_type (JDict [(''typename'', JString ''bytes'')]) ''ping''
     (Some [(''typename'', JString ''bytes'')]) = Inr (PyBytes ''ping'') \<and>
   check_decoded raw_bytes_type (PyBytes ''ping'') (Some [(''typename'', JString ''bytes'')]) =
     Inr True"
proof -
  have e: "encode raw_bytes_type (PyBytes ''ping'') (Some [(''typename'', JString ''bytes'')]) =
     Inr ([(''typename'', JString ''bytes'')], ''ping'')"
    by (simp add: check_decoded_def encode_def check_encoded_def validate_metadata_def
        validate_definition_def jsonschema_validate_def metadata_required_def
        definition_required_def schema_properties_def raw_bytes_type_def dict_set_def
        dict_get_def)
  have t: "transform_type raw_bytes_type (PyBytes ''ping'')
      (Some [(''typename'', JString ''bytes'')]) = Inr (PyBytes ''ping'')"
    and d: "decode_data raw_bytes_type ''ping'' (JDict [(''typename'', JString ''bytes'')]) =
      Inr (PyBytes ''ping'')"
    by (simp_all add: raw_bytes_type_def)
  from decode_encode_roundtrip [OF e t d t] e show ?thesis by simp
qed

text \<open>
  C3, as the claim states it, fails: for the type that casts integers to one unsigned byte,
  300 is valid, its encoding succeeds, and decoding the result gives 44.
\<close>

theorem decode_encode_counterexample:
  "check_decoded uint8_type 300 None = Inr True \<and>
   encode uint8_type 300 None = Inr ([(''typename'', JString ''uint8'')], [CHR 0x2C]) \<and>
   decode uint8_type (JDict [(''typename'', JString ''uint8'')]) [CHR 0x2C] None = Inr 44"
  by (simp add: check_decoded_def encode_def decode_def check_encoded_def validate_metadata_def
      jsonschema_validate_def metadata_required_def schema_properties_def uint8_type_def
      dict_set_def char_of_def)

section \<open>The envelope: header, separator, payload\<close>

lemma split_first_at:
  assumes "s \<noteq> []" and "\<And>u. u \<noteq> [] \<Longrightarrow> suffix u h \<Longrightarrow> \<not> prefix s (u @ s @ d)"
  shows "split_first s (h @ s @ d) = Some (h, d)"
  using assms(2)
proof (induction h)
  case Nil
  from assms(1) show ?case by (cases s) auto
next
  case (Cons x h)
  have "\<not> prefix s ((x # h) @ s @ d)"
    by (rule Cons.prems) (simp_all add: suffix_order.refl)
  moreover have "split_first s (h @ s @ d) = Some (h, d)"
  proof (rule Cons.IH)
    fix u :: "char list"
    assume "u \<noteq> []" "suffix u h"
    then show "\<not> prefix s (u @ s @ d)"
      using Cons.prems [of u] by (simp add: suffix_ConsI)
  qed
  ultimately show ?case by simp
qed

lemma no_overlap:
  assumes "\<not> bytes_contains s h" and "last h \<notin> set s" and "u \<noteq> []" and "suffix u h"
  shows "\<not> prefix s (u @ s @ d)"
proof
  assume "prefix s (u @ s @ d)"
  then consider "prefix s u" | us where "s = u @ us"
    by (auto simp: prefix_append)
  then show False
  proof cases
    case 1
    then obtain r where "u = s @ r" by (auto simp: prefix_def)
    moreover from assms(4) obtain p where "h = p @ u" by (auto simp: suffix_def)
    ultimately have "h = p @ s @ r" by simp
    then have "bytes_contains s h" unfolding bytes_contains_iff by blast
    with assms(1) show False by simp
  next
    case 2
    with assms(3) have "last u \<in> set s" by simp
    moreover from assms(3,4) have "last u = last h" by (auto simp: suffix_def)
    ultimately show False using assms(2) by simp
  qed
qed

lemma json_dumps_JDict_last: "last (json_dumps (JDict kvs)) = CHR ''}''"
  by simp

text \<open>
  C7, as the code has it. \<^verbatim>\<open>serialize\<close> writes the header as JSON text, the separator
  and the payload, and neither escapes nor rejects a separator inside the header. If the
  header's JSON text does not contain the separator, splitting the envelope at the first
  occurrence of the separator gives back exactly the header's JSON text and the payload,
  whatever the payload holds.
\<close>

theorem serialize_split_recovers:
  assumes "serialize T td obj kwargs = Inr msg"
  shows "\<exists>metadata data.
           encode T obj (Some td) = Inr (metadata, data) \<and>
           msg = json_dumps (JDict (dict_update metadata kwargs)) @ sep @ data \<and>
           (\<not> bytes_contains sep (json_dumps (JDict (dict_update metadata kwargs))) \<longrightarrow>
              split_first sep msg =
                Some (json_dumps (JDict (dict_update metadata kwargs)), data))"
proof -
  from assms obtain metadata data where
    e: "encode T obj (Some td) = Inr (metadata, data)"
    and m: "msg = json_dumps (JDict (dict_update metadata kwargs)) @ sep @ data"
    by (auto simp: serialize_def split: sum.splits)
  let ?h = "json_dumps (JDict (dict_update metadata kwargs))"
  have "split_first sep (?h @ sep @ data) = Some (?h, data)" if "\<not> bytes_contains sep ?h"
  proof (rule split_first_at)
    show "sep \<noteq> []" by (simp add: sep_def)
    fix u :: string
    assume "u \<noteq> []" "suffix u ?h"
    moreover have "last ?h \<notin> set sep"
      unfolding json_dumps_JDict_last by (simp add: sep_def)
    ultimately show "\<not> prefix sep (u @ sep @ data)"
      using that by (intro no_overlap)
  qed
  with e m show ?thesis by blast
qed

theorem serialize_split_recovers_witness:
  "serialize raw_bytes_type [(''typename'', JString ''bytes'')] (PyBytes ''a:CIS_TAG:b'')
       [(''model'', JString ''A'')] =
     Inr (json_dumps (JDict [(''typename'', JString ''bytes''), (''model'', JString ''A'')])
            @ sep @ ''a:CIS_TAG:b'') \<and>
   split_first sep
       (json_dumps (JDict [(''typename'', JString ''bytes''), (''model'', JString ''A'')])
          @ sep @ ''a:CIS_TAG:b'') =
     Some (json_dumps (JDict [(''typename'', JString ''bytes''), (''model'', JString ''A'')]),
           ''a:CIS_TAG:b'')"
proof -
  have e: "encode raw_bytes_type (PyBytes ''a:CIS_TAG:b'')
      (Some [(''typename'', JString ''bytes'')]) =
     Inr ([(''typename'', JString ''bytes'')], ''a:CIS_TAG:b'')"
    by (simp add: check_decoded_def encode_def check_encoded_def validate_metadata_def
        validate_definition_def jsonschema_validate_def metadata_required_def
        definition_required_def schema_properties_def raw_bytes_type_def dict_set_def
        dict_get_def)
  then have s: "serialize raw_bytes_type [(''typename'', JString ''bytes'')]
       (PyBytes ''a:CIS_TAG:b'') [(''model'', JString ''A'')] =
     Inr (json_dumps (JDict [(''typename'', JString ''bytes''), (''model'', JString ''A'')])
            @ sep @ ''a:CIS_TAG:b'')"
    by (simp add: serialize_def dict_set_def)
  have n: "\<not> bytes_contains sep
      (json_dumps (JDict [(''typename'', JString ''bytes''), (''model'', JString ''A'')]))"
    by (simp add: sep_def encode_basestring_ascii_def escape_char_def)
  from serialize_split_recovers [OF s] e n s show ?thesis
    by (simp add: dict_set_def)
qed

text \<open>
  C7, as the claim states it, fails: a header field whose value holds the separator is
  accepted, the separator stands unescaped in the header's JSON text, and the split cuts
  the envelope inside the header.
\<close>

theorem serialize_separator_counterexample:
  "serialize raw_bytes_type [(''typename'', JString ''bytes'')] (PyBytes ''data'')
       [(''model'', JString '':CIS_TAG:'')] =
     Inr (json_dumps (JDict [(''typename'', JString ''bytes''), (''model'', JString '':CIS_TAG:'')])
            @ sep @ ''data'') \<and>
   bytes_contains sep
     (json_dumps (JDict [(''typename'', JString ''bytes''), (''model'', JString '':CIS_TAG:'')])) \<and>
   split_first sep
       (json_dumps (JDict [(''typename'', JString ''bytes''), (''model'', JString '':CIS_TAG:'')])
          @ sep @ ''data'') =
     Some (take 11
             (json_dumps (JDict [(''typename'', JString ''bytes''),
                                 (''model'', JString '':CIS_TAG:'')])),
           drop 20
             (json_dumps (JDict [(''typename'', JString ''bytes''),
                                 (''model'', JString '':CIS_TAG:'')]))
             @ sep @ ''data'')"
  by (simp add: serialize_def check_decoded_def encode_def check_encoded_def
      validate_metadata_def validate_definition_def jsonschema_validate_def
      metadata_required_def definition_required_def schema_properties_def raw_bytes_type_def
      dict_set_def dict_get_def sep_def encode_basestring_ascii_def escape_char_def)

end
